theory Spec2Isabelle
  imports Main
begin

section \<open>Values shared by the validator and the handler\<close>

text \<open>
  Go byte slices and strings are byte sequences; both are modelled as \<open>string\<close>.
  A value of Go's \<open>error\<close> interface is one of the shapes the two source files
  construct or inspect. The \<open>Input\<close> back-pointer of a response error is left out:
  the input after the call is returned next to the error.
\<close>

type_synonym bytes = string

record Parameter =
  Name :: string

datatype RequestBody = RequestBody

datatype error =
    ResponseError (resp_Reason: string) (resp_Err: "error option")
  | RequestError (req_Reason: string) (req_Parameter: "Parameter option")
      (req_RequestBody: "RequestBody option") (req_Err: "error option")
  | SecurityRequirementsError (sec_SecurityRequirements: "(string \<times> string list) list list")
      (sec_Errors: "string list")
  | SchemaError (schema_Reason: string)
  | ErrDialTimeout
  | ErrNoFreeConns
  | OtherError string

text \<open>A call either returns or panics (a nil dereference in the source).\<close>

datatype 'a outcome = Return 'a | Panic

text \<open>
  An \<open>io.ReadCloser\<close>: the bytes the stream delivers, and the error that ends it
  (\<open>None\<close> for a clean end of stream). \<open>io.ReadAll\<close> returns both.
\<close>

datatype reader = Reader (delivered: bytes) (fault: "error option")

definition ReadAll :: "reader \<Rightarrow> bytes \<times> error option" where
  "ReadAll r = (delivered r, fault r)"

subsection \<open>Decimal formatting (\<open>strconv.FormatInt\<close>, \<open>%d\<close>)\<close>

definition digit :: "nat \<Rightarrow> char" where
  "digit n = ''0123456789'' ! n"

function format_nat :: "nat \<Rightarrow> string" where
  "format_nat n = (if n < 10 then [digit n] else format_nat (n div 10) @ [digit (n mod 10)])"
  by pat_completeness auto
termination
  by (relation "measure id") auto

declare format_nat.simps [simp del]

definition FormatInt :: "int \<Rightarrow> string" where
  "FormatInt i = (if i < 0 then ''-'' @ format_nat (nat (- i)) else format_nat (nat i))"

section \<open>The OpenAPI model read by response validation\<close>

text \<open>
  The structs of the OpenAPI library, with the fields \<open>ValidateResponse\<close> reads.
  A Go pointer is an \<open>option\<close> (\<open>None\<close> is nil); a Go map with pointer values is an
  association list whose values are options, looked up with \<open>map_of\<close>.
  Schemas, encodings and decoded values are opaque: \<open>'s\<close>, \<open>'e\<close> and \<open>'v\<close>.
\<close>

record Options =
  ExcludeRequestBody :: bool
  ExcludeResponseBody :: bool
  IncludeResponseStatus :: bool
  MultiError :: bool

text \<open>\<open>openapi3filter.DefaultOptions\<close> is the zero value of \<open>Options\<close>.\<close>

definition DefaultOptions :: Options where
  "DefaultOptions = \<lparr>ExcludeRequestBody = False, ExcludeResponseBody = False,
     IncludeResponseStatus = False, MultiError = False\<rparr>"

record ('s, 'e) MediaType =
  Schema :: "'s option"
  Encoding :: "string \<Rightarrow> 'e option"

type_synonym ('s, 'e) Content = "(string \<times> ('s, 'e) MediaType option) list"

record ('s, 'e) Response =
  Content :: "('s, 'e) Content"

record ('s, 'e) ResponseRef =
  Value :: "('s, 'e) Response option"

type_synonym ('s, 'e) Responses = "(string \<times> ('s, 'e) ResponseRef option) list"

record ('s, 'e) Operation =
  Responses :: "('s, 'e) Responses"

record ('s, 'e) Route =
  Operation :: "('s, 'e) Operation option"

type_synonym Header = "string \<Rightarrow> string list"

record http_Request =
  Method :: string

record ('s, 'e) RequestValidationInput =
  Request :: "http_Request option"
  PathParams :: "(string \<rightharpoonup> string) option"
  Route :: "('s, 'e) Route option"

record ('s, 'e) ResponseValidationInput =
  RequestValidationInput :: "('s, 'e) RequestValidationInput option"
  Status :: int
  Header :: Header
  Body :: "reader option"
  Options :: "Options option"

text \<open>Lookup in a Go map of pointers: nil for a missing key and for a key bound to nil.\<close>

definition lookup_ptr :: "(string \<times> 'a option) list \<Rightarrow> string \<Rightarrow> 'a option" where
  "lookup_ptr m k = (case map_of m k of None \<Rightarrow> None | Some p \<Rightarrow> p)"

text \<open>
  \<open>Responses.Get\<close> looks the status up under its decimal text, \<open>Responses.Default\<close>
  under the key \<open>default\<close>.
\<close>

definition Responses_Get :: "('s, 'e) Responses \<Rightarrow> int \<Rightarrow> ('s, 'e) ResponseRef option" where
  "Responses_Get responses status = lookup_ptr responses (FormatInt status)"

definition Responses_Default :: "('s, 'e) Responses \<Rightarrow> ('s, 'e) ResponseRef option" where
  "Responses_Default responses = lookup_ptr responses ''default''"

text \<open>\<open>SetBodyBytes\<close> stores a fresh in-memory reader over the given bytes.\<close>

definition SetBodyBytes ::
  "('s, 'e) ResponseValidationInput \<Rightarrow> bytes \<Rightarrow> ('s, 'e) ResponseValidationInput" where
  "SetBodyBytes input data = input\<lparr>Body := Some (Reader data None)\<rparr>"

text \<open>
  What the validator calls and this file does not define: header-key canonicalisation,
  the content-type lookup \<open>Content.Get\<close>, Go's \<open>%q\<close> quoting, the body decoder, the
  conversion of a parsed JSON value into plain maps (the identity on every other value) and
  the schema visitor (its flag says whether \<open>MultiErrors\<close> was appended to the options).
\<close>

record ('s, 'e, 'v) validator_env =
  CanonicalMIMEHeaderKey :: "string \<Rightarrow> string"
  Content_Get :: "('s, 'e) Content \<Rightarrow> string \<Rightarrow> ('s, 'e) MediaType option"
  Quote :: "string \<Rightarrow> string"
  decodeBody :: "bytes \<Rightarrow> Header \<Rightarrow> 's \<Rightarrow> (string \<Rightarrow> 'e option) \<Rightarrow> error + 'v"
  convertToMap :: "'v \<Rightarrow> 'v"
  VisitJSON :: "'s \<Rightarrow> 'v \<Rightarrow> bool \<Rightarrow> error option"

text \<open>\<open>http.Header.Get\<close>: the first value under the canonical key, or the empty string.\<close>

definition Header_Get :: "('s, 'e, 'v) validator_env \<Rightarrow> Header \<Rightarrow> string \<Rightarrow> string" where
  "Header_Get env h key = (case h (CanonicalMIMEHeaderKey env key) of [] \<Rightarrow> [] | v # _ \<Rightarrow> v)"

text \<open>
  Modelled from the spec: the constant \<open>headerCT\<close> of package validator is declared
  outside the given source; the spec names the header it reads, \<open>Content-Type\<close>.
\<close>

definition headerCT :: string where
  "headerCT = ''Content-Type''"

section \<open>ValidateResponse\<close>

text \<open>
  The result of a call: what it returned (nil or an error) or that it panicked, the
  validation input as the call leaves it, and what it did with the body, in order.
\<close>

datatype io_event = ReadBody | DecodeBody | VisitSchema | CloseBody

record ('s, 'e) validation =
  verdict :: "error option outcome"
  input_after :: "('s, 'e) ResponseValidationInput"
  effects :: "io_event list"

definition finish ::
  "error option outcome \<Rightarrow> ('s, 'e) ResponseValidationInput \<Rightarrow> io_event list \<Rightarrow> ('s, 'e) validation" where
  "finish v input evs = \<lparr>verdict = v, input_after = input, effects = evs\<rparr>"

definition doesnt_match :: string where
  "doesnt_match = ''response body doesn't match the schema''"

text \<open>
  The second half of \<open>ValidateResponse\<close>, from the comment
  \<open>Read response's body\<close> on: entered with the options, the media type and the
  schema that the first half resolves.
\<close>

definition validateBody ::
  "('s, 'e, 'v) validator_env \<Rightarrow> Options \<Rightarrow> ('s, 'e) MediaType \<Rightarrow> 's
    \<Rightarrow> ('s, 'e) ResponseValidationInput \<Rightarrow> ('s, 'e) validation" where
  "validateBody env options contentType schema input =
    (let body = Body input;
         input1 = input\<lparr>Body := None\<rparr> in
     case body of
       None \<Rightarrow> finish Panic input1 []
     | Some rd \<Rightarrow>
    (case ReadAll rd of
       (data, Some err) \<Rightarrow>
         finish (Return (Some (ResponseError ''failed to read response body'' (Some err))))
           input1 [ReadBody, CloseBody]
     | (data, None) \<Rightarrow>
    let input2 = SetBodyBytes input1 data in
    (case decodeBody env data (Header input2) schema (Encoding contentType) of
       Inl err \<Rightarrow>
         finish (Return (Some (ResponseError ''failed to decode response body'' (Some err))))
           input2 [ReadBody, DecodeBody, CloseBody]
     | Inr val \<Rightarrow>
    (case VisitJSON env schema (convertToMap env val) (MultiError options) of
       Some err \<Rightarrow>
         finish (Return (Some (ResponseError doesnt_match (Some err))))
           input2 [ReadBody, DecodeBody, VisitSchema, CloseBody]
     | None \<Rightarrow>
         finish (Return None) input2 [ReadBody, DecodeBody, VisitSchema, CloseBody]))))"

text \<open>
  The first half of \<open>ValidateResponse\<close>, up to the schema of the response's content
  type: either the call is over (\<open>Inl\<close>, with what it returns or a panic) or the
  options, the media type and the schema to validate the body against are known.
\<close>

definition resolveSchema ::
  "('s, 'e, 'v) validator_env \<Rightarrow> ('s, 'e) ResponseValidationInput
    \<Rightarrow> error option outcome + Options \<times> ('s, 'e) MediaType \<times> 's" where
  "resolveSchema env input =
    (case RequestValidationInput input of
       None \<Rightarrow> Inl Panic
     | Some rvi \<Rightarrow>
    (case Request rvi of
       None \<Rightarrow> Inl Panic
     | Some req \<Rightarrow>
    if Method req = ''HEAD'' then Inl (Return None)
    else let status = Status input in
    if status = 304 \<or> status = 308 \<or> status = 307 \<or> status = 301
    then Inl (Return None)
    else let options = (case Options input of None \<Rightarrow> DefaultOptions | Some opts \<Rightarrow> opts) in
    (case Route rvi of
       None \<Rightarrow> Inl Panic
     | Some route \<Rightarrow>
    (case Operation route of
       None \<Rightarrow> Inl Panic
     | Some operation \<Rightarrow>
    let responses = Responses operation in
    if responses = [] then Inl (Return None)
    else let responseRef =
           (case Responses_Get responses status of
              None \<Rightarrow> Responses_Default responses
            | Some r \<Rightarrow> Some r) in
    (case responseRef of
       None \<Rightarrow>
         if \<not> IncludeResponseStatus options then Inl (Return None)
         else Inl (Return (Some (ResponseError ''status is not supported'' None)))
     | Some ref \<Rightarrow>
    (case Value ref of
       None \<Rightarrow> Inl (Return (Some (ResponseError ''response has not been resolved'' None)))
     | Some response \<Rightarrow>
    if ExcludeResponseBody options then Inl (Return None)
    else let content = Content response in
    if content = [] \<or> ExcludeResponseBody options then Inl (Return None)
    else let inputMIME = Header_Get env (Header input) headerCT in
    (case Content_Get env content inputMIME of
       None \<Rightarrow>
         Inl (Return (Some (ResponseError
           (''response header Content-Type has unexpected value: '' @ Quote env inputMIME)
           None)))
     | Some contentType \<Rightarrow>
    (case Schema contentType of
       None \<Rightarrow> Inl (Return None)
     | Some schema \<Rightarrow> Inr (options, contentType, schema)))))))))"

definition ValidateResponse ::
  "('s, 'e, 'v) validator_env \<Rightarrow> ('s, 'e) ResponseValidationInput \<Rightarrow> ('s, 'e) validation" where
  "ValidateResponse env input =
    (case resolveSchema env input of
       Inl v \<Rightarrow> finish v input []
     | Inr (options, contentType, schema) \<Rightarrow> validateBody env options contentType schema input)"

section \<open>The transport context of the handler\<close>

text \<open>
  The request context of the HTTP transport. A request or response header is the list of
  pairs its \<open>VisitAll\<close> enumerates, with \<open>Add\<close> appending a pair; the
  content type is what the accessor \<open>ContentType()\<close> returns, the status what
  \<open>StatusCode()\<close> returns. A user value is a string or anything else (on which the
  type assertion of the handler panics).
\<close>

record fasthttp_Request =
  rq_ContentType :: string
  rq_Header :: "(string \<times> string) list"
  rq_Body :: bytes

record fasthttp_Response =
  StatusCode :: int
  rs_ContentType :: string
  rs_Header :: "(string \<times> string) list"
  rs_Body :: bytes

datatype user_value = StringValue string | OtherValue

record RequestCtx =
  ctx_Request :: fasthttp_Request
  ctx_Response :: fasthttp_Response
  UserValues :: "(string \<times> user_value) list"

text \<open>
  Modelled from the spec: the validation modes of package web are declared outside the
  given source; the spec gives the enumeration \<open>{Disabled, LogOnly, Block}\<close>.
\<close>

datatype ValidationMode = ValidationDisable | ValidationLog | ValidationBlock

text \<open>
  Modelled from the spec: the header name \<open>web.ValidationStatus\<close> is declared outside
  the given source; the spec names the observable header \<open>APIFW-Validation-Status\<close>.
\<close>

definition ValidationStatus :: string where
  "ValidationStatus = ''APIFW-Validation-Status''"

record APIFWConfiguration =
  RequestValidation :: ValidationMode
  ResponseValidation :: ValidationMode
  AddValidationStatusHeader :: bool
  CustomBlockStatusCode :: int

record ('s, 'e) openapiWaf =
  route :: "('s, 'e) Route option"
  cfg :: APIFWConfiguration
  pathParamLength :: int

text \<open>
  A backend client is its \<open>Do\<close>: from the request and the response of the context to
  both as the call leaves them, and the transport error if the call failed.
\<close>

type_synonym HTTPClient =
  "fasthttp_Request \<Rightarrow> fasthttp_Response \<Rightarrow> fasthttp_Request \<times> fasthttp_Response \<times> error option"

text \<open>
  The collaborators of the handler: the validator's environment, the connection pool's
  \<open>Get\<close>, the shadow-API check, the conversion of the transport request into a
  \<open>net/http\<close> request, request validation (closed over the authentication function the
  handler builds), and the value \<open>web.RespondError\<close> returns.
\<close>

record ('s, 'e, 'v) handler_env =
  validator :: "('s, 'e, 'v) validator_env"
  proxyPool_Get :: "error + HTTPClient"
  shadowAPI_Check :: "RequestCtx \<Rightarrow> error option"
  ConvertRequest :: "RequestCtx \<Rightarrow> error + http_Request"
  ValidateRequest :: "('s, 'e) RequestValidationInput \<Rightarrow> error option"
  RespondError_returns :: "error option"

text \<open>What a handler call did, in order.\<close>

datatype step =
    Acquire
  | Release
  | ParserGet
  | ParserPut
  | Log string
  | ProxyCall
  | ShadowCheck
  | ValidateRequestCall
  | ValidateResponseCall "io_event list"
  | Diagnostic

record handling =
  h_ctx :: RequestCtx
  h_ret :: "error option outcome"
  h_steps :: "step list"

definition after :: "step list \<Rightarrow> handling \<Rightarrow> handling" where
  "after evs h = h\<lparr>h_steps := evs @ h_steps h\<rparr>"

definition deferred :: "step \<Rightarrow> handling \<Rightarrow> handling" where
  "deferred ev h = h\<lparr>h_steps := h_steps h @ [ev]\<rparr>"

text \<open>
  Modelled from the spec: \<open>web.RespondError\<close> is declared outside the given source.
  By the spec the handler responds with the given status code, optionally carrying the
  diagnostic header, and the response held so far is replaced. The spec does not say what
  the helper returns to the handler: that value is the parameter \<open>ret\<close>.
\<close>

definition RespondError ::
  "error option \<Rightarrow> RequestCtx \<Rightarrow> int \<Rightarrow> string option \<Rightarrow> RequestCtx \<times> error option" where
  "RespondError ret ctx statusCode statusHeader =
     (ctx\<lparr>ctx_Response :=
        \<lparr>StatusCode = statusCode, rs_ContentType = [],
         rs_Header = (case statusHeader of None \<Rightarrow> [] | Some v \<Rightarrow> [(ValidationStatus, v)]),
         rs_Body = []\<rparr>\<rparr>,
      ret)"

definition respond ::
  "('s, 'e, 'v) handler_env \<Rightarrow> RequestCtx \<Rightarrow> int \<Rightarrow> string option \<Rightarrow> handling" where
  "respond env ctx statusCode statusHeader =
     (case RespondError (RespondError_returns env) ctx statusCode statusHeader of
        (ctx', r) \<Rightarrow> \<lparr>h_ctx = ctx', h_ret = Return r, h_steps = []\<rparr>)"

section \<open>The diagnostic encoder\<close>

text \<open>\<open>strings.Split(s, ";")[0]\<close> and \<open>strings.TrimSuffix\<close>.\<close>

definition beforeSemicolon :: "string \<Rightarrow> string" where
  "beforeSemicolon s = takeWhile (\<lambda>c. c \<noteq> CHR '';'') s"

definition TrimSuffix :: "string \<Rightarrow> string \<Rightarrow> string" where
  "TrimSuffix s suffix =
     (if length suffix \<le> length s \<and> drop (length s - length suffix) s = suffix
      then take (length s - length suffix) s else s)"

definition getValidationHeader :: "RequestCtx \<Rightarrow> error \<Rightarrow> string option" where
  "getValidationHeader ctx err =
    (case err of
       ResponseError r e \<Rightarrow>
         let reason = (if r \<noteq> [] then r else ''unknown'');
             ident = ''response-'' @ FormatInt (StatusCode (ctx_Response ctx)) @ ''-''
                     @ beforeSemicolon (rs_ContentType (ctx_Response ctx))
         in Some (ident @ '':'' @ reason @ '':response'')
     | RequestError r parameter requestBody e \<Rightarrow>
         let reason = (if r \<noteq> [] then r else ''unknown'') in
         (case parameter of
            Some p \<Rightarrow>
              let paramName = ''request-parameter'';
                  reason' =
                    (if r = [] then
                       (case e of
                          Some (SchemaError sr) \<Rightarrow> if sr \<noteq> [] then sr else reason
                        | _ \<Rightarrow> reason)
                     else reason);
                  paramName' = (if r = [] then Name p else paramName)
              in Some (''request-parameter:'' @ reason' @ '':'' @ paramName')
          | None \<Rightarrow>
              (case requestBody of
                 Some b \<Rightarrow>
                   let ident = ''request-body-'' @ beforeSemicolon (rq_ContentType (ctx_Request ctx))
                   in Some (ident @ '':'' @ reason @ '':request-body'')
               | None \<Rightarrow> None))
     | SecurityRequirementsError requirements errors \<Rightarrow>
         let secSchemeName = concat (map (\<lambda>scheme. concat (map (\<lambda>(key, scopes). key @ '','') scheme))
                                      requirements);
             secErrors = concat (map (\<lambda>secError. secError @ '','') errors)
         in Some (''security-requirements-'' @ TrimSuffix secSchemeName '','' @ '':''
                  @ TrimSuffix secErrors '','' @ '':'' @ TrimSuffix secSchemeName '','')
     | _ \<Rightarrow> None)"

section \<open>The proxy call\<close>

definition gatewayStatus :: "error \<Rightarrow> int" where
  "gatewayStatus err =
     (case err of ErrDialTimeout \<Rightarrow> 504 | ErrNoFreeConns \<Rightarrow> 503 | _ \<Rightarrow> 502)"

definition performProxy ::
  "('s, 'e, 'v) handler_env \<Rightarrow> RequestCtx \<Rightarrow> HTTPClient \<Rightarrow> handling" where
  "performProxy env ctx client =
     (case client (ctx_Request ctx) (ctx_Response ctx) of
        (req, resp, failure) \<Rightarrow>
          let ctx1 = ctx\<lparr>ctx_Request := req, ctx_Response := resp\<rparr> in
          (case failure of
             Some err \<Rightarrow>
               after [ProxyCall, Log ''error while proxying request'']
                 (respond env ctx1 (gatewayStatus err) None)
           | None \<Rightarrow> \<lparr>h_ctx = ctx1, h_ret = Return None, h_steps = [ProxyCall]\<rparr>))"

section \<open>The handler\<close>

text \<open>\<open>http.Header.Set\<close> replaces the values under the canonical key.\<close>

definition Header_Set :: "('s, 'e, 'v) validator_env \<Rightarrow> Header \<Rightarrow> string \<Rightarrow> string \<Rightarrow> Header" where
  "Header_Set env h k v = h(CanonicalMIMEHeaderKey env k := [v])"

text \<open>
  The header handed to response validation: every pair of the request header of the
  context, set into an empty \<open>http.Header\<close>.
\<close>

definition respHeader :: "('s, 'e, 'v) validator_env \<Rightarrow> RequestCtx \<Rightarrow> Header" where
  "respHeader env ctx =
     fold (\<lambda>(k, v) h. Header_Set env h k v) (rq_Header (ctx_Request ctx)) (\<lambda>k. [])"

text \<open>The options literal the handler passes to response validation.\<close>

definition pipelineOptions :: Options where
  "pipelineOptions = \<lparr>ExcludeRequestBody = False, ExcludeResponseBody = False,
     IncludeResponseStatus = True, MultiError = False\<rparr>"

definition responseValidationInput ::
  "('s, 'e, 'v) validator_env \<Rightarrow> ('s, 'e) RequestValidationInput \<Rightarrow> RequestCtx
    \<Rightarrow> ('s, 'e) ResponseValidationInput" where
  "responseValidationInput env requestValidationInput ctx =
     \<lparr>RequestValidationInput = Some requestValidationInput,
      Status = StatusCode (ctx_Response ctx),
      Header = respHeader env ctx,
      Body = Some (Reader (rs_Body (ctx_Response ctx)) None),
      Options = Some pipelineOptions\<rparr>"

text \<open>The path parameters: the user values of the context, each asserted to be a string.\<close>

fun visitUserValues ::
  "(string \<times> user_value) list \<Rightarrow> (string \<rightharpoonup> string) \<Rightarrow> (string \<rightharpoonup> string) outcome" where
  "visitUserValues [] m = Return m"
| "visitUserValues ((k, StringValue v) # rest) m = visitUserValues rest (m(k \<mapsto> v))"
| "visitUserValues ((k, OtherValue) # rest) m = Panic"

definition pathParams ::
  "('s, 'e) openapiWaf \<Rightarrow> RequestCtx \<Rightarrow> (string \<rightharpoonup> string) option outcome" where
  "pathParams s ctx =
     (if pathParamLength s > 0
      then (case visitUserValues (UserValues ctx) Map.empty of
              Panic \<Rightarrow> Panic
            | Return m \<Rightarrow> Return (Some m))
      else Return None)"

definition finished :: "RequestCtx \<Rightarrow> error option outcome \<Rightarrow> handling" where
  "finished ctx r = \<lparr>h_ctx = ctx, h_ret = r, h_steps = []\<rparr>"

definition addHeaderLog :: "string \<Rightarrow> step" where
  "addHeaderLog vh = Log (''add header '' @ ValidationStatus @ '': '' @ vh)"

text \<open>Response validation and what follows it (the last switch of the handler).\<close>

definition validateResponseStage ::
  "('s, 'e, 'v) handler_env \<Rightarrow> ('s, 'e) openapiWaf \<Rightarrow> ('s, 'e) RequestValidationInput
    \<Rightarrow> RequestCtx \<Rightarrow> handling" where
  "validateResponseStage env s requestValidationInput ctx =
    (let input = responseValidationInput (validator env) requestValidationInput ctx in
     case ResponseValidation (cfg s) of
       ValidationBlock \<Rightarrow>
         let v = ValidateResponse (validator env) input in
         after [ValidateResponseCall (effects v)]
           (case verdict v of
              Panic \<Rightarrow> finished ctx Panic
            | Return None \<Rightarrow> finished ctx (Return None)
            | Return (Some err) \<Rightarrow>
                after [Log ''response validation error'']
                  (if AddValidationStatusHeader (cfg s) then
                     after [Diagnostic]
                       (case getValidationHeader ctx err of
                          Some vh \<Rightarrow>
                            after [addHeaderLog vh]
                              (respond env
                                 (ctx\<lparr>ctx_Response := (ctx_Response ctx)
                                    \<lparr>rs_Header := rs_Header (ctx_Response ctx) @ [(ValidationStatus, vh)]\<rparr>\<rparr>)
                                 (CustomBlockStatusCode (cfg s)) (Some vh))
                        | None \<Rightarrow> respond env ctx (CustomBlockStatusCode (cfg s)) None)
                   else respond env ctx (CustomBlockStatusCode (cfg s)) None))
     | ValidationLog \<Rightarrow>
         let v = ValidateResponse (validator env) input in
         after [ValidateResponseCall (effects v)]
           (case verdict v of
              Panic \<Rightarrow> finished ctx Panic
            | Return None \<Rightarrow> finished ctx (Return None)
            | Return (Some err) \<Rightarrow>
                after [Log ''response validation error''] (finished ctx (Return None)))
     | ValidationDisable \<Rightarrow> finished ctx (Return None))"

text \<open>The proxy call of the validated path: its error ends the handler.\<close>

definition proxyStage ::
  "('s, 'e, 'v) handler_env \<Rightarrow> ('s, 'e) openapiWaf \<Rightarrow> HTTPClient
    \<Rightarrow> ('s, 'e) RequestValidationInput \<Rightarrow> RequestCtx \<Rightarrow> handling" where
  "proxyStage env s client requestValidationInput ctx =
    (let p = performProxy env ctx client in
     case h_ret p of
       Return None \<Rightarrow> after (h_steps p) (validateResponseStage env s requestValidationInput (h_ctx p))
     | _ \<Rightarrow> p)"

text \<open>Path parameters, request conversion, request validation, then the proxy stage.\<close>

definition validateRequestStage ::
  "('s, 'e, 'v) handler_env \<Rightarrow> ('s, 'e) openapiWaf \<Rightarrow> HTTPClient \<Rightarrow> RequestCtx \<Rightarrow> handling" where
  "validateRequestStage env s client ctx =
    (case pathParams s ctx of
       Panic \<Rightarrow> finished ctx Panic
     | Return params \<Rightarrow>
    (case ConvertRequest env ctx of
       Inl err \<Rightarrow>
         after [Log ''error while converting http request''] (respond env ctx 400 None)
     | Inr req \<Rightarrow>
    let requestValidationInput = \<lparr>Request = Some req, PathParams = params, Route = route s\<rparr> in
    after [ParserGet] (deferred ParserPut
    (case RequestValidation (cfg s) of
       ValidationBlock \<Rightarrow>
         after [ValidateRequestCall]
           (case ValidateRequest env requestValidationInput of
              Some err \<Rightarrow>
                after [Log ''request validation error'']
                  (if AddValidationStatusHeader (cfg s) then
                     after [Diagnostic]
                       (case getValidationHeader ctx err of
                          Some vh \<Rightarrow>
                            after [addHeaderLog vh]
                              (respond env
                                 (ctx\<lparr>ctx_Request := (ctx_Request ctx)
                                    \<lparr>rq_Header := rq_Header (ctx_Request ctx) @ [(ValidationStatus, vh)]\<rparr>\<rparr>)
                                 (CustomBlockStatusCode (cfg s)) (Some vh))
                        | None \<Rightarrow> respond env ctx (CustomBlockStatusCode (cfg s)) None)
                   else respond env ctx (CustomBlockStatusCode (cfg s)) None)
            | None \<Rightarrow> proxyStage env s client requestValidationInput ctx)
     | ValidationLog \<Rightarrow>
         after [ValidateRequestCall]
           (case ValidateRequest env requestValidationInput of
              Some err \<Rightarrow>
                after [Log ''request validation error'']
                  (proxyStage env s client requestValidationInput ctx)
            | None \<Rightarrow> proxyStage env s client requestValidationInput ctx)
     | ValidationDisable \<Rightarrow> proxyStage env s client requestValidationInput ctx))))"

text \<open>The policy for a request with no matched route, else the validated path.\<close>

definition routeStage ::
  "('s, 'e, 'v) handler_env \<Rightarrow> ('s, 'e) openapiWaf \<Rightarrow> HTTPClient \<Rightarrow> RequestCtx \<Rightarrow> handling" where
  "routeStage env s client ctx =
    (case route s of
       None \<Rightarrow>
         if RequestValidation (cfg s) = ValidationBlock \<or> ResponseValidation (cfg s) = ValidationBlock
         then
           (if AddValidationStatusHeader (cfg s)
            then respond env ctx (CustomBlockStatusCode (cfg s)) (Some ''request: route not found'')
            else respond env ctx (CustomBlockStatusCode (cfg s)) None)
         else if RequestValidation (cfg s) = ValidationLog \<or> ResponseValidation (cfg s) = ValidationLog
         then
           (let p = performProxy env ctx client in
            case shadowAPI_Check env (h_ctx p) of
              Some sErr \<Rightarrow> p\<lparr>h_steps := h_steps p @ [ShadowCheck, Log ''Shadow API check error'']\<rparr>
            | None \<Rightarrow> p\<lparr>h_steps := h_steps p @ [ShadowCheck]\<rparr>)
         else validateRequestStage env s client ctx
     | Some r \<Rightarrow> validateRequestStage env s client ctx)"

definition openapiWafHandler ::
  "('s, 'e, 'v) handler_env \<Rightarrow> ('s, 'e) openapiWaf \<Rightarrow> RequestCtx \<Rightarrow> handling" where
  "openapiWafHandler env s ctx =
    (case proxyPool_Get env of
       Inl err \<Rightarrow>
         after [Acquire, Log ''error while proxying request''] (respond env ctx 503 None)
     | Inr client \<Rightarrow>
         after [Acquire] (deferred Release
           (if RequestValidation (cfg s) = ValidationDisable
               \<and> ResponseValidation (cfg s) = ValidationDisable
            then performProxy env ctx client
            else routeStage env s client ctx)))"

section \<open>Auxiliary notions for the statements\<close>

text \<open>
  The same validation input over another response set, and the options in force for an
  input (the default options when the input carries none).
\<close>

definition withResponses ::
  "('s, 'e) ResponseValidationInput \<Rightarrow> ('s, 'e) Responses \<Rightarrow> ('s, 'e) ResponseValidationInput" where
  "withResponses input responses =
     input\<lparr>RequestValidationInput :=
       map_option (\<lambda>rvi. rvi\<lparr>Route :=
         map_option (\<lambda>rt. rt\<lparr>Operation :=
           map_option (\<lambda>operation. operation\<lparr>Responses := responses\<rparr>) (Operation rt)\<rparr>) (Route rvi)\<rparr>)
         (RequestValidationInput input)\<rparr>"

definition optionsOf :: "('s, 'e) ResponseValidationInput \<Rightarrow> Options" where
  "optionsOf input = (case Options input of None \<Rightarrow> DefaultOptions | Some opts \<Rightarrow> opts)"

section \<open>Concrete inputs\<close>

text \<open>
  A small instance of the collaborators and of the data, used to run the model: schemas and
  values are numbers, a value matches a schema when they are equal, and the only body that
  decodes is \<open>{}\<close>.
\<close>

definition env0 :: "(nat, nat, nat) validator_env" where
  "env0 = \<lparr>CanonicalMIMEHeaderKey = (\<lambda>k. k),
            Content_Get = lookup_ptr,
            Quote = (\<lambda>s. s),
            decodeBody = (\<lambda>data h schema enc. if data = ''{}'' then Inr 1 else Inl (OtherError ''bad json'')),
            convertToMap = (\<lambda>v. v),
            VisitJSON = (\<lambda>schema v multi. if schema = v then None else Some (SchemaError ''mismatch''))\<rparr>"

definition jsonResponse :: "(nat, nat) ResponseRef" where
  "jsonResponse = \<lparr>Value = Some \<lparr>Content =
        [(''application/json'', Some \<lparr>Schema = Some 1, Encoding = (\<lambda>n. None)\<rparr>)]\<rparr>\<rparr>"

definition routeWith :: "(nat, nat) Responses \<Rightarrow> (nat, nat) Route" where
  "routeWith responses = \<lparr>Operation = Some \<lparr>Responses = responses\<rparr>\<rparr>"

definition jsonHeader :: Header where
  "jsonHeader = (\<lambda>k. if k = ''Content-Type'' then [''application/json''] else [])"

definition inputWith ::
  "string \<Rightarrow> int \<Rightarrow> (nat, nat) Responses \<Rightarrow> reader \<Rightarrow> Options \<Rightarrow> (nat, nat) ResponseValidationInput" where
  "inputWith m st responses rd opts =
     \<lparr>RequestValidationInput =
        Some \<lparr>Request = Some \<lparr>Method = m\<rparr>, PathParams = None, Route = Some (routeWith responses)\<rparr>,
      Status = st,
      Header = jsonHeader,
      Body = Some rd,
      Options = Some opts\<rparr>"

definition backend :: "fasthttp_Response \<Rightarrow> error option \<Rightarrow> HTTPClient" where
  "backend resp failure = (\<lambda>rq rs. (rq, resp, failure))"

definition backendResponse :: "int \<Rightarrow> fasthttp_Response" where
  "backendResponse st = \<lparr>StatusCode = st, rs_ContentType = ''application/json'',
     rs_Header = [(''Server'', ''backend'')], rs_Body = ''{}''\<rparr>"

definition exampleEnv ::
  "error + HTTPClient \<Rightarrow> error option \<Rightarrow> error option \<Rightarrow> (nat, nat, nat) handler_env" where
  "exampleEnv pool requestVerdict ret =
     \<lparr>validator = env0,
      proxyPool_Get = pool,
      shadowAPI_Check = (\<lambda>ctx. Some (OtherError ''shadow'')),
      ConvertRequest = (\<lambda>ctx. Inr \<lparr>Method = ''GET''\<rparr>),
      ValidateRequest = (\<lambda>rvi. requestVerdict),
      RespondError_returns = ret\<rparr>"

definition exampleWaf ::
  "(nat, nat) Route option \<Rightarrow> ValidationMode \<Rightarrow> ValidationMode \<Rightarrow> (nat, nat) openapiWaf" where
  "exampleWaf r requestMode responseMode =
     \<lparr>route = r,
      cfg = \<lparr>RequestValidation = requestMode, ResponseValidation = responseMode,
             AddValidationStatusHeader = True, CustomBlockStatusCode = 403\<rparr>,
      pathParamLength = 0\<rparr>"

definition exampleCtx :: RequestCtx where
  "exampleCtx =
     \<lparr>ctx_Request = \<lparr>rq_ContentType = ''application/json'',
                      rq_Header = [(''Content-Type'', ''application/json'')],
                      rq_Body = ''{\"name\": 123}''\<rparr>,
      ctx_Response = \<lparr>StatusCode = 200, rs_ContentType = [], rs_Header = [], rs_Body = []\<rparr>,
      UserValues = []\<rparr>"

definition documented200 :: "(nat, nat) Responses" where
  "documented200 = [(''200'', Some jsonResponse)]"

definition requestInput :: "(nat, nat) Responses \<Rightarrow> (nat, nat) RequestValidationInput" where
  "requestInput responses =
     \<lparr>Request = Some \<lparr>Method = ''GET''\<rparr>, PathParams = None, Route = Some (routeWith responses)\<rparr>"

section \<open>Evaluation of the model on concrete inputs\<close>

lemmas validator_defs =
  ValidateResponse_def resolveSchema_def validateBody_def finish_def ReadAll_def SetBodyBytes_def
  Responses_Get_def Responses_Default_def lookup_ptr_def FormatInt_def format_nat.simps digit_def
  Header_Get_def headerCT_def DefaultOptions_def pipelineOptions_def optionsOf_def withResponses_def
  doesnt_match_def Let_def

lemmas handler_defs =
  openapiWafHandler_def routeStage_def validateRequestStage_def proxyStage_def
  validateResponseStage_def performProxy_def respond_def RespondError_def gatewayStatus_def
  responseValidationInput_def respHeader_def Header_Set_def pathParams_def after_def deferred_def
  finished_def addHeaderLog_def ValidationStatus_def getValidationHeader_def beforeSemicolon_def
  TrimSuffix_def

lemmas example_defs =
  env0_def jsonResponse_def routeWith_def jsonHeader_def inputWith_def documented200_def
  requestInput_def backend_def backendResponse_def exampleEnv_def exampleWaf_def exampleCtx_def

section \<open>Response validation: the two halves\<close>

lemma lookup_ptr_Cons: "lookup_ptr ((k, v) # m) k' = (if k = k' then v else lookup_ptr m k')"
  by (simp add: lookup_ptr_def)

lemma not_read:
  "resolveSchema env input = Inl v \<Longrightarrow>
   ValidateResponse env input = \<lparr>verdict = v, input_after = input, effects = []\<rparr>"
  by (simp add: ValidateResponse_def finish_def)

lemma read_cases:
  assumes "ReadBody \<in> set (effects (ValidateResponse env input))"
  obtains options ct schema where "resolveSchema env input = Inr (options, ct, schema)"
    and "ValidateResponse env input = validateBody env options ct schema input"
  using assms by (cases "resolveSchema env input") (auto simp: ValidateResponse_def finish_def)


lemma validateBody_read_fails:
  assumes "Body input = Some rd" and "fault rd = Some e"
  shows "validateBody env options ct schema input =
    \<lparr>verdict = Return (Some (ResponseError ''failed to read response body'' (Some e))),
     input_after = input\<lparr>Body := None\<rparr>, effects = [ReadBody, CloseBody]\<rparr>"
  using assms
  by (simp add: validateBody_def finish_def ReadAll_def Let_def)

lemma validateBody_no_panic:
  "Body input = Some rd \<Longrightarrow> verdict (validateBody env options ct schema input) \<noteq> Panic"
  by (simp add: validateBody_def finish_def Let_def split: option.split sum.split prod.split)

text \<open>The body stage reads the input through its body and its header only.\<close>

lemma validateBody_frame:
  assumes "Body input' = Body input" and "Header input' = Header input"
  shows "verdict (validateBody env options ct schema input')
           = verdict (validateBody env options ct schema input)"
    and "effects (validateBody env options ct schema input')
           = effects (validateBody env options ct schema input)"
    and "Body (input_after (validateBody env options ct schema input'))
           = Body (input_after (validateBody env options ct schema input))"
  using assms
  by (simp_all add: validateBody_def finish_def SetBodyBytes_def Let_def
      split: option.split sum.split prod.split)

lemma resolve_undocumented:
  assumes "RequestValidationInput input = Some rvi" and "Request rvi = Some req"
    and "Route rvi = Some rt" and "Operation rt = Some operation"
    and "Responses_Get (Responses operation) (Status input) = None"
    and "Responses_Default (Responses operation) = None"
  shows "resolveSchema env input =
     Inl (if Method req = ''HEAD'' \<or> Status input = 301 \<or> Status input = 304 \<or> Status input = 307
             \<or> Status input = 308 \<or> Responses operation = []
             \<or> \<not> IncludeResponseStatus (optionsOf input)
          then Return None
          else Return (Some (ResponseError ''status is not supported'' None)))"
  using assms by (simp add: resolveSchema_def optionsOf_def Let_def)

lemma resolve_fallback:
  assumes "RequestValidationInput input = Some rvi" and "Request rvi = Some req"
    and "Route rvi = Some rt" and "Operation rt = Some operation"
    and "Responses operation \<noteq> []"
    and "Responses_Get (Responses operation) (Status input) = None"
    and "Responses_Default (Responses operation) = Some d"
  shows "resolveSchema env (withResponses input ((FormatInt (Status input), Some d) # Responses operation))
       = resolveSchema env input"
  using assms
  by (simp add: resolveSchema_def withResponses_def Responses_Get_def Responses_Default_def
      lookup_ptr_Cons Let_def split: option.split cong: if_cong)

lemma resolveSchema_no_panic:
  assumes "RequestValidationInput input = Some rvi" and "Request rvi = Some req"
    and "Route rvi = Some rt" and "Operation rt = Some operation"
  shows "resolveSchema env input \<noteq> Inl Panic"
  using assms by (simp add: resolveSchema_def Let_def split: option.split)

lemma pipeline_no_panic:
  assumes "Request rvi = Some req" and "Route rvi = Some rt" and "Operation rt = Some operation"
  shows "verdict (ValidateResponse venv (responseValidationInput venv rvi ctx)) \<noteq> Panic"
proof (cases "resolveSchema venv (responseValidationInput venv rvi ctx)")
  case (Inl v)
  moreover have "v \<noteq> Panic"
    using Inl resolveSchema_no_panic[of "responseValidationInput venv rvi ctx" rvi req rt operation venv]
      assms
    by (auto simp: responseValidationInput_def)
  ultimately show ?thesis by (simp add: ValidateResponse_def finish_def)
next
  case (Inr t)
  obtain options ct schema where t: "t = (options, ct, schema)"
    by (cases t)
  have "Body (responseValidationInput venv rvi ctx) = Some (Reader (rs_Body (ctx_Response ctx)) None)"
    by (simp add: responseValidationInput_def)
  then have "verdict (validateBody venv options ct schema (responseValidationInput venv rvi ctx)) \<noteq> Panic"
    by (rule validateBody_no_panic)
  with Inr t show ?thesis by (simp add: ValidateResponse_def)
qed

section \<open>The handler stage by stage\<close>

lemma after_simps [simp]:
  "h_ctx (after evs h) = h_ctx h" "h_ret (after evs h) = h_ret h"
  "h_steps (after evs h) = evs @ h_steps h"
  by (simp_all add: after_def)

lemma deferred_simps [simp]:
  "h_ctx (deferred ev h) = h_ctx h" "h_ret (deferred ev h) = h_ret h"
  "h_steps (deferred ev h) = h_steps h @ [ev]"
  by (simp_all add: deferred_def)

lemma finished_simps [simp]:
  "h_ctx (finished ctx r) = ctx" "h_ret (finished ctx r) = r" "h_steps (finished ctx r) = []"
  by (simp_all add: finished_def)

lemma respond_simps [simp]:
  "h_ret (respond env ctx code hdr) = Return (RespondError_returns env)"
  "h_steps (respond env ctx code hdr) = []"
  "StatusCode (ctx_Response (h_ctx (respond env ctx code hdr))) = code"
  "rs_Header (ctx_Response (h_ctx (respond env ctx code hdr))) =
     (case hdr of None \<Rightarrow> [] | Some v \<Rightarrow> [(ValidationStatus, v)])"
  by (simp_all add: respond_def RespondError_def)

lemma performProxy_answered:
  assumes "client (ctx_Request ctx) (ctx_Response ctx) = (rq, rs, None)"
  shows "performProxy env ctx client =
    \<lparr>h_ctx = ctx\<lparr>ctx_Request := rq, ctx_Response := rs\<rparr>, h_ret = Return None,
     h_steps = [ProxyCall]\<rparr>"
  using assms by (simp add: performProxy_def)

lemma performProxy_failed:
  assumes "client (ctx_Request ctx) (ctx_Response ctx) = (rq, rs, Some err)"
  shows "h_ret (performProxy env ctx client) = Return (RespondError_returns env)"
    and "h_steps (performProxy env ctx client) = [ProxyCall, Log ''error while proxying request'']"
    and "StatusCode (ctx_Response (h_ctx (performProxy env ctx client))) = gatewayStatus err"
  using assms by (simp_all add: performProxy_def)

lemma performProxy_steps:
  "set (h_steps (performProxy env ctx client)) \<subseteq> {ProxyCall, Log ''error while proxying request''}"
  by (auto simp: performProxy_def Let_def split: prod.split option.split)

lemma performProxy_called: "ProxyCall \<in> set (h_steps (performProxy env ctx client))"
  by (simp add: performProxy_def Let_def split: prod.split option.split)

lemma performProxy_check_irrelevant:
  "performProxy (env\<lparr>shadowAPI_Check := chk\<rparr>) ctx client = performProxy env ctx client"
  by (simp add: performProxy_def respond_def Let_def split: prod.split option.split)

lemma proxyStage_failed:
  assumes "client (ctx_Request ctx) (ctx_Response ctx) = (rq, rs, Some err)"
    and "RespondError_returns env = Some e"
  shows "proxyStage env s client rvi ctx = performProxy env ctx client"
  using assms by (simp add: proxyStage_def performProxy_failed)

lemma validateRequestStage_failed:
  assumes "client (ctx_Request ctx) (ctx_Response ctx) = (rq, rs, Some err)"
    and "RespondError_returns env = Some e"
  shows "ValidateResponseCall evs \<notin> set (h_steps (validateRequestStage env s client ctx))"
    and "ProxyCall \<in> set (h_steps (validateRequestStage env s client ctx)) \<longrightarrow>
         StatusCode (ctx_Response (h_ctx (validateRequestStage env s client ctx))) = gatewayStatus err"
  using assms
  by (simp_all add: validateRequestStage_def proxyStage_failed performProxy_failed addHeaderLog_def
      Let_def split: outcome.split sum.split ValidationMode.split option.split)

lemma routeStage_failed:
  assumes "client (ctx_Request ctx) (ctx_Response ctx) = (rq, rs, Some err)"
    and "RespondError_returns env = Some e"
  shows "ValidateResponseCall evs \<notin> set (h_steps (routeStage env s client ctx))"
    and "ProxyCall \<in> set (h_steps (routeStage env s client ctx)) \<longrightarrow>
         StatusCode (ctx_Response (h_ctx (routeStage env s client ctx))) = gatewayStatus err"
  using assms
    validateRequestStage_failed[where client = client and ctx = ctx and env = env and s = s, OF assms]
  by (simp_all add: routeStage_def performProxy_failed Let_def split: option.split)

lemma performProxy_first: "take 1 (h_steps (performProxy env ctx client)) = [ProxyCall]"
  by (simp add: performProxy_def Let_def split: prod.split option.split)

lemma proxyStage_first: "take 1 (h_steps (proxyStage env s client rvi ctx)) = [ProxyCall]"
proof -
  obtain rest where p: "h_steps (performProxy env ctx client) = ProxyCall # rest"
    using performProxy_first[of env ctx client]
    by (cases "h_steps (performProxy env ctx client)") simp_all
  show ?thesis
    by (simp add: proxyStage_def Let_def p split: outcome.split option.split)
qed

lemma handler_acquired:
  assumes "proxyPool_Get env = Inr client"
  shows "h_ctx (openapiWafHandler env s ctx) =
           h_ctx (if RequestValidation (cfg s) = ValidationDisable
                     \<and> ResponseValidation (cfg s) = ValidationDisable
                  then performProxy env ctx client else routeStage env s client ctx)"
    and "h_ret (openapiWafHandler env s ctx) =
           h_ret (if RequestValidation (cfg s) = ValidationDisable
                     \<and> ResponseValidation (cfg s) = ValidationDisable
                  then performProxy env ctx client else routeStage env s client ctx)"
    and "h_steps (openapiWafHandler env s ctx) =
           Acquire # h_steps (if RequestValidation (cfg s) = ValidationDisable
                                 \<and> ResponseValidation (cfg s) = ValidationDisable
                              then performProxy env ctx client else routeStage env s client ctx)
             @ [Release]"
  using assms by (simp_all add: openapiWafHandler_def)

lemma validateResponseStage_passes:
  assumes "verdict (ValidateResponse (validator env) (responseValidationInput (validator env) rvi ctx))
             \<noteq> Panic"
    and "ResponseValidation (cfg s) = ValidationBlock \<longrightarrow>
           verdict (ValidateResponse (validator env) (responseValidationInput (validator env) rvi ctx))
             = Return None"
  shows "h_ctx (validateResponseStage env s rvi ctx) = ctx"
    and "h_ret (validateResponseStage env s rvi ctx) = Return None"
  using assms
  by (simp_all add: validateResponseStage_def Let_def
      split: ValidationMode.split outcome.split option.split)

section \<open>Claims about response validation\<close>



text \<open>
  Claim C3. For a request of method HEAD, and for a response status 301, 304, 307 or 308,
  ValidateResponse returns success at once: the input is untouched and the body is neither
  read nor decoded nor validated, whatever the schema, the options and the collaborators.
\<close>

theorem head_and_redirects_skip_validation:
  assumes "RequestValidationInput input = Some rvi" and "Request rvi = Some req"
    and "Method req = ''HEAD'' \<or> Status input \<in> {301, 304, 307, 308}"
  shows "ValidateResponse env input = \<lparr>verdict = Return None, input_after = input, effects = []\<rparr>"
proof -
  have "resolveSchema env input = Inl (Return None)"
    using assms by (auto simp: resolveSchema_def)
  then show ?thesis by (rule not_read)
qed

theorem head_and_redirects_skip_validation_witness:
  "RequestValidationInput (inputWith ''HEAD'' 200 documented200 (Reader ''[1]'' None) pipelineOptions)
     = Some (requestInput documented200\<lparr>Request := Some \<lparr>Method = ''HEAD''\<rparr>\<rparr>)
   \<and> Request (requestInput documented200\<lparr>Request := Some \<lparr>Method = ''HEAD''\<rparr>\<rparr>)
     = Some \<lparr>Method = ''HEAD''\<rparr>
   \<and> ValidateResponse env0 (inputWith ''HEAD'' 200 documented200 (Reader ''[1]'' None) pipelineOptions)
     = \<lparr>verdict = Return None,
        input_after = inputWith ''HEAD'' 200 documented200 (Reader ''[1]'' None) pipelineOptions,
        effects = []\<rparr>
   \<and> ValidateResponse env0 (inputWith ''GET'' 304 documented200 (Reader ''[1]'' None) pipelineOptions)
     = \<lparr>verdict = Return None,
        input_after = inputWith ''GET'' 304 documented200 (Reader ''[1]'' None) pipelineOptions,
        effects = []\<rparr>"
proof -
  let ?head = "inputWith ''HEAD'' 200 documented200 (Reader ''[1]'' None) pipelineOptions"
  let ?moved = "inputWith ''GET'' 304 documented200 (Reader ''[1]'' None) pipelineOptions"
  have h1: "RequestValidationInput ?head
      = Some (requestInput documented200\<lparr>Request := Some \<lparr>Method = ''HEAD''\<rparr>\<rparr>)"
    by (simp add: inputWith_def requestInput_def)
  have h2: "Request (requestInput documented200\<lparr>Request := Some \<lparr>Method = ''HEAD''\<rparr>\<rparr>)
      = Some \<lparr>Method = ''HEAD''\<rparr>"
    by simp
  have h3: "Method \<lparr>Method = ''HEAD''\<rparr> = ''HEAD'' \<or> Status ?head \<in> {301, 304, 307, 308}"
    by simp
  have g1: "RequestValidationInput ?moved = Some (requestInput documented200)"
    by (simp add: inputWith_def requestInput_def)
  have g2: "Request (requestInput documented200) = Some \<lparr>Method = ''GET''\<rparr>"
    by (simp add: requestInput_def)
  have g3: "Method \<lparr>Method = ''GET''\<rparr> = ''HEAD'' \<or> Status ?moved \<in> {301, 304, 307, 308}"
    by (simp add: inputWith_def)
  from head_and_redirects_skip_validation[OF h1 h2 h3, of env0]
    head_and_redirects_skip_validation[OF g1 g2 g3, of env0] h1 h2
  show ?thesis by simp
qed

text \<open>
  Claim C10. In every response validation call in which the body is read and the read
  fails, ValidateResponse returns a response error with the reason
  \<open>failed to read response body\<close>, wrapping the read error, and leaves the body of the
  input nil: the bytes are not put back.
\<close>

theorem read_failure_leaves_body_nil:
  assumes "Body input = Some rd" and "fault rd = Some e"
    and "ReadBody \<in> set (effects (ValidateResponse env input))"
  shows "ValidateResponse env input =
    \<lparr>verdict = Return (Some (ResponseError ''failed to read response body'' (Some e))),
     input_after = input\<lparr>Body := None\<rparr>, effects = [ReadBody, CloseBody]\<rparr>"
  using assms by (metis read_cases validateBody_read_fails)

theorem read_failure_leaves_body_nil_witness:
  "Body (inputWith ''GET'' 200 documented200 (Reader ''{'' (Some (OtherError ''reset''))) pipelineOptions)
     = Some (Reader ''{'' (Some (OtherError ''reset'')))
   \<and> fault (Reader ''{'' (Some (OtherError ''reset''))) = Some (OtherError ''reset'')
   \<and> ReadBody \<in> set (effects (ValidateResponse env0
         (inputWith ''GET'' 200 documented200 (Reader ''{'' (Some (OtherError ''reset''))) pipelineOptions)))
   \<and> verdict (ValidateResponse env0
         (inputWith ''GET'' 200 documented200 (Reader ''{'' (Some (OtherError ''reset''))) pipelineOptions))
       = Return (Some (ResponseError ''failed to read response body'' (Some (OtherError ''reset''))))
   \<and> Body (input_after (ValidateResponse env0
         (inputWith ''GET'' 200 documented200 (Reader ''{'' (Some (OtherError ''reset''))) pipelineOptions)))
       = None"
proof -
  let ?rd = "Reader ''{'' (Some (OtherError ''reset''))"
  let ?input = "inputWith ''GET'' 200 documented200 ?rd pipelineOptions"
  have h1: "Body ?input = Some ?rd"
    by (simp add: inputWith_def)
  have h2: "fault ?rd = Some (OtherError ''reset'')"
    by simp
  have h3: "ReadBody \<in> set (effects (ValidateResponse env0 ?input))"
    by (simp add: validator_defs example_defs)
  from read_failure_leaves_body_nil[OF h1 h2 h3] h1 h2 h3 show ?thesis by simp
qed

text \<open>
  Claim C7, as amended. For a request that is not HEAD and a status other than 301, 304,
  307 and 308, when the route declares a non-empty response set with no entry for the
  exact status: if the operation has a default entry, the call behaves as it does when that
  entry is declared for the exact status; if it has none, the call succeeds when the
  include-response-status option is unset and returns the response error
  \<open>status is not supported\<close> when it is set, in both cases without touching the body.
\<close>

theorem status_fallback_to_default:
  assumes "RequestValidationInput input = Some rvi" and "Request rvi = Some req"
    and "Route rvi = Some rt" and "Operation rt = Some operation"
    and "Method req \<noteq> ''HEAD''" and "Status input \<notin> {301, 304, 307, 308}"
    and "Responses operation \<noteq> []"
    and "Responses_Get (Responses operation) (Status input) = None"
  shows "(\<forall>d. Responses_Default (Responses operation) = Some d \<longrightarrow>
            verdict (ValidateResponse env input) =
              verdict (ValidateResponse env
                (withResponses input ((FormatInt (Status input), Some d) # Responses operation)))
          \<and> effects (ValidateResponse env input) =
              effects (ValidateResponse env
                (withResponses input ((FormatInt (Status input), Some d) # Responses operation)))
          \<and> Body (input_after (ValidateResponse env input)) =
              Body (input_after (ValidateResponse env
                (withResponses input ((FormatInt (Status input), Some d) # Responses operation)))))
       \<and> (Responses_Default (Responses operation) = None \<longrightarrow>
            ValidateResponse env input =
              \<lparr>verdict = (if IncludeResponseStatus (optionsOf input)
                          then Return (Some (ResponseError ''status is not supported'' None))
                          else Return None),
               input_after = input, effects = []\<rparr>)"
proof (intro conjI allI impI)
  assume "Responses_Default (Responses operation) = None"
  then have "resolveSchema env input =
      Inl (if IncludeResponseStatus (optionsOf input)
           then Return (Some (ResponseError ''status is not supported'' None)) else Return None)"
    using resolve_undocumented[OF assms(1-4) assms(8), of env] assms(5-7) by simp
  then show "ValidateResponse env input =
              \<lparr>verdict = (if IncludeResponseStatus (optionsOf input)
                          then Return (Some (ResponseError ''status is not supported'' None))
                          else Return None),
               input_after = input, effects = []\<rparr>"
    by (rule not_read)
next
  fix d
  assume d: "Responses_Default (Responses operation) = Some d"
  let ?input' = "withResponses input ((FormatInt (Status input), Some d) # Responses operation)"
  have same: "resolveSchema env ?input' = resolveSchema env input"
    using resolve_fallback[OF assms(1-4) assms(7,8) d] .
  have frame: "Body ?input' = Body input" "Header ?input' = Header input"
    by (simp_all add: withResponses_def)
  show "verdict (ValidateResponse env input) = verdict (ValidateResponse env ?input')"
    by (simp add: ValidateResponse_def finish_def same validateBody_frame(1)[OF frame]
        split: sum.split prod.split)
  show "effects (ValidateResponse env input) = effects (ValidateResponse env ?input')"
    by (simp add: ValidateResponse_def finish_def same validateBody_frame(2)[OF frame]
        split: sum.split prod.split)
  show "Body (input_after (ValidateResponse env input))
      = Body (input_after (ValidateResponse env ?input'))"
    by (simp add: ValidateResponse_def finish_def same validateBody_frame(3)[OF frame] frame(1)
        split: sum.split prod.split)
qed

theorem status_fallback_to_default_witness:
  "Responses_Get documented200 404 = None
   \<and> Responses_Default documented200 = None
   \<and> ValidateResponse env0 (inputWith ''GET'' 404 documented200 (Reader ''{}'' None) pipelineOptions)
       = \<lparr>verdict = Return (Some (ResponseError ''status is not supported'' None)),
          input_after = inputWith ''GET'' 404 documented200 (Reader ''{}'' None) pipelineOptions,
          effects = []\<rparr>
   \<and> Responses_Get ((''default'', Some jsonResponse) # documented200) 404 = None
   \<and> Responses_Default ((''default'', Some jsonResponse) # documented200) = Some jsonResponse
   \<and> verdict (ValidateResponse env0
         (inputWith ''GET'' 404 ((''default'', Some jsonResponse) # documented200)
            (Reader ''{}'' None) pipelineOptions))
       = verdict (ValidateResponse env0
         (withResponses
            (inputWith ''GET'' 404 ((''default'', Some jsonResponse) # documented200)
               (Reader ''{}'' None) pipelineOptions)
            ((''404'', Some jsonResponse) # (''default'', Some jsonResponse) # documented200)))"
proof -
  let ?rs = "(''default'', Some jsonResponse) # documented200"
  let ?plain = "inputWith ''GET'' 404 documented200 (Reader ''{}'' None) pipelineOptions"
  let ?dflt = "inputWith ''GET'' 404 ?rs (Reader ''{}'' None) pipelineOptions"
  have fmt: "FormatInt 404 = ''404''"
    by (simp add: FormatInt_def format_nat.simps digit_def)
  have a1: "RequestValidationInput ?plain = Some (requestInput documented200)"
    and b1: "RequestValidationInput ?dflt = Some (requestInput ?rs)"
    by (simp_all add: inputWith_def requestInput_def)
  have a2: "Request (requestInput documented200) = Some \<lparr>Method = ''GET''\<rparr>"
    and b2: "Request (requestInput ?rs) = Some \<lparr>Method = ''GET''\<rparr>"
    by (simp_all add: requestInput_def)
  have a3: "Route (requestInput documented200) = Some (routeWith documented200)"
    and b3: "Route (requestInput ?rs) = Some (routeWith ?rs)"
    by (simp_all add: requestInput_def)
  have a4: "Operation (routeWith documented200) = Some \<lparr>Responses = documented200\<rparr>"
    and b4: "Operation (routeWith ?rs) = Some \<lparr>Responses = ?rs\<rparr>"
    by (simp_all add: routeWith_def)
  have a5: "Method \<lparr>Method = ''GET''\<rparr> \<noteq> ''HEAD''"
    by simp
  have a6: "Status ?plain \<notin> {301, 304, 307, 308}" and b6: "Status ?dflt \<notin> {301, 304, 307, 308}"
    by (simp_all add: inputWith_def)
  have a7: "Responses \<lparr>Responses = documented200\<rparr> \<noteq> []"
    and b7: "Responses \<lparr>Responses = ?rs\<rparr> \<noteq> []"
    by (simp_all add: documented200_def)
  have a8: "Responses_Get (Responses \<lparr>Responses = documented200\<rparr>) (Status ?plain) = None"
    and b8: "Responses_Get (Responses \<lparr>Responses = ?rs\<rparr>) (Status ?dflt) = None"
    by (simp_all add: inputWith_def documented200_def Responses_Get_def lookup_ptr_def fmt)
  have d1: "Responses_Default documented200 = None"
    and d2: "Responses_Default ?rs = Some jsonResponse"
    by (simp_all add: documented200_def Responses_Default_def lookup_ptr_def)
  have o: "IncludeResponseStatus (optionsOf ?plain)"
    by (simp add: optionsOf_def inputWith_def pipelineOptions_def)
  have st: "Status ?plain = 404" "Status ?dflt = 404"
    by (simp_all add: inputWith_def)
  from status_fallback_to_default[OF a1 a2 a3 a4 a5 a6 a7 a8, of env0]
    status_fallback_to_default[OF b1 b2 b3 b4 a5 b6 b7 b8, of env0]
    a8 b8 d1 d2 o
  show ?thesis by (simp add: st fmt)
qed

theorem head_ignores_include_status:
  "documented200 \<noteq> []
   \<and> Responses_Get documented200 404 = None
   \<and> Responses_Default documented200 = None
   \<and> IncludeResponseStatus (optionsOf
         (inputWith ''HEAD'' 404 documented200 (Reader ''{}'' None) pipelineOptions))
   \<and> verdict (ValidateResponse env0
         (inputWith ''HEAD'' 404 documented200 (Reader ''{}'' None) pipelineOptions)) = Return None"
  by (simp add: validator_defs example_defs)




section \<open>Claims about the diagnostic encoder\<close>

text \<open>
  Claim C4, as amended. For a request error that carries a parameter the encoder emits
  \<open>request-parameter:<reason>:<name>\<close>. When the top-level reason is empty, the name is
  the parameter's name and the reason is the reason of the wrapped schema error, or
  \<open>unknown\<close> when there is no wrapped schema error with a reason. When the top-level
  reason is not empty, the reason is that reason and the name is the fixed text
  \<open>request-parameter\<close>.
\<close>

theorem request_parameter_diagnostic:
  "(r = [] \<longrightarrow> e = Some (SchemaError sr) \<longrightarrow> sr \<noteq> [] \<longrightarrow>
      getValidationHeader ctx (RequestError r (Some p) b e) =
        Some (''request-parameter:'' @ sr @ '':'' @ Name p))
   \<and> (r = [] \<longrightarrow> (\<forall>sr. e = Some (SchemaError sr) \<longrightarrow> sr = []) \<longrightarrow>
      getValidationHeader ctx (RequestError r (Some p) b e) =
        Some (''request-parameter:unknown:'' @ Name p))
   \<and> (r \<noteq> [] \<longrightarrow>
      getValidationHeader ctx (RequestError r (Some p) b e) =
        Some (''request-parameter:'' @ r @ '':request-parameter''))"
  by (auto simp: getValidationHeader_def Let_def split: option.split error.split)

theorem request_parameter_diagnostic_witness:
  "getValidationHeader exampleCtx
     (RequestError [] (Some \<lparr>Name = ''id''\<rparr>) None (Some (SchemaError ''too long'')))
     = Some ''request-parameter:too long:id''
   \<and> getValidationHeader exampleCtx (RequestError [] (Some \<lparr>Name = ''id''\<rparr>) None None)
     = Some ''request-parameter:unknown:id''
   \<and> getValidationHeader exampleCtx (RequestError ''missing'' (Some \<lparr>Name = ''id''\<rparr>) None None)
     = Some ''request-parameter:missing:request-parameter''"
  using request_parameter_diagnostic[where r = "[]" and e = "Some (SchemaError ''too long'')"
      and sr = "''too long''" and ctx = exampleCtx and p = "\<lparr>Name = ''id''\<rparr>" and b = None]
    request_parameter_diagnostic[where r = "[]" and e = None
      and ctx = exampleCtx and p = "\<lparr>Name = ''id''\<rparr>" and b = None]
    request_parameter_diagnostic[where r = "''missing''" and e = None
      and ctx = exampleCtx and p = "\<lparr>Name = ''id''\<rparr>" and b = None]
  by simp

theorem request_parameter_name_dropped:
  "getValidationHeader exampleCtx
     (RequestError ''value is required but missing'' (Some \<lparr>Name = ''id''\<rparr>) None None)
     = Some ''request-parameter:value is required but missing:request-parameter''
   \<and> getValidationHeader exampleCtx
     (RequestError ''value is required but missing'' (Some \<lparr>Name = ''id''\<rparr>) None None)
     \<noteq> Some ''request-parameter:value is required but missing:id''"
  by (simp add: getValidationHeader_def)

section \<open>Claims about the handler\<close>

text \<open>
  What follows a failed backend call on the validated path depends on the value that
  \<open>RespondError\<close> returns to \<open>performProxy\<close>: the handler ends there when that
  value is an error, and goes on to response validation of the gateway-error response
  when it is nil. Both behaviours of the model are recorded.
\<close>

lemma failed_call_ends_handler_on_error:
  assumes "proxyPool_Get env = Inr client"
    and "client (ctx_Request ctx) (ctx_Response ctx) = (rq, rs, Some err)"
    and "RespondError_returns env = Some e"
    and "ProxyCall \<in> set (h_steps (openapiWafHandler env s ctx))"
  shows "StatusCode (ctx_Response (h_ctx (openapiWafHandler env s ctx))) =
           (if err = ErrDialTimeout then 504 else if err = ErrNoFreeConns then 503 else 502)
       \<and> (\<forall>evs. ValidateResponseCall evs \<notin> set (h_steps (openapiWafHandler env s ctx)))"
proof -
  let ?inner = "if RequestValidation (cfg s) = ValidationDisable
                   \<and> ResponseValidation (cfg s) = ValidationDisable
                then performProxy env ctx client else routeStage env s client ctx"
  note acq = handler_acquired[OF assms(1), of s ctx]
  have g: "gatewayStatus err =
      (if err = ErrDialTimeout then 504 else if err = ErrNoFreeConns then 503 else 502)"
    by (cases err) (simp_all add: gatewayStatus_def)
  have called: "ProxyCall \<in> set (h_steps ?inner)"
    using assms(4) unfolding acq(3) by simp
  have pp: "StatusCode (ctx_Response (h_ctx (performProxy env ctx client))) = gatewayStatus err"
      "h_steps (performProxy env ctx client) = [ProxyCall, Log ''error while proxying request'']"
    using performProxy_failed[where client = client and ctx = ctx and env = env, OF assms(2)]
    by simp_all
  note rs = routeStage_failed[where client = client and ctx = ctx and env = env and s = s,
      OF assms(2,3)]
  have status: "StatusCode (ctx_Response (h_ctx ?inner)) = gatewayStatus err"
    using called pp(1) rs(2) by (simp split: if_splits)
  have quiet: "ValidateResponseCall evs \<notin> set (h_steps ?inner)" for evs
    using pp(2) rs(1)[of evs] by (simp split: if_splits)
  show ?thesis
    unfolding acq using status quiet g by simp
qed

lemma failed_call_validated_on_nil:
  "RespondError_returns (exampleEnv (Inr (backend (backendResponse 200) (Some ErrDialTimeout))) None None)
     = None
   \<and> ValidateResponseCall [] \<in> set (h_steps (openapiWafHandler
        (exampleEnv (Inr (backend (backendResponse 200) (Some ErrDialTimeout))) None None)
        (exampleWaf (Some (routeWith documented200)) ValidationLog ValidationBlock) exampleCtx))
   \<and> StatusCode (ctx_Response (h_ctx (openapiWafHandler
        (exampleEnv (Inr (backend (backendResponse 200) (Some ErrDialTimeout))) None None)
        (exampleWaf (Some (routeWith documented200)) ValidationLog ValidationBlock) exampleCtx))) = 403"
  by (simp add: validator_defs handler_defs example_defs)

text \<open>
  Claim C6. While both validation modes are Disabled the handler does nothing but acquire
  a client, make the bare proxy call and release the client: no request validation, no
  response validation, no diagnostic encoding and no shadow-API check is among its steps;
  and when the backend answers, the request context leaves the handler holding exactly the
  response the backend call produced.
\<close>

theorem disabled_is_pass_through:
  assumes "RequestValidation (cfg s) = ValidationDisable"
    and "ResponseValidation (cfg s) = ValidationDisable"
  shows "set (h_steps (openapiWafHandler env s ctx))
           \<subseteq> {Acquire, ProxyCall, Release, Log ''error while proxying request''}
       \<and> (\<forall>client rq rs. proxyPool_Get env = Inr client
             \<longrightarrow> client (ctx_Request ctx) (ctx_Response ctx) = (rq, rs, None)
             \<longrightarrow> openapiWafHandler env s ctx =
                   \<lparr>h_ctx = ctx\<lparr>ctx_Request := rq, ctx_Response := rs\<rparr>, h_ret = Return None,
                    h_steps = [Acquire, ProxyCall, Release]\<rparr>)"
proof (intro conjI allI impI)
  show "set (h_steps (openapiWafHandler env s ctx))
           \<subseteq> {Acquire, ProxyCall, Release, Log ''error while proxying request''}"
    using assms performProxy_steps[of env ctx]
    by (auto simp: openapiWafHandler_def split: sum.split)
next
  fix client rq rs
  assume "proxyPool_Get env = Inr client"
    and "client (ctx_Request ctx) (ctx_Response ctx) = (rq, rs, None)"
  then show "openapiWafHandler env s ctx =
                   \<lparr>h_ctx = ctx\<lparr>ctx_Request := rq, ctx_Response := rs\<rparr>, h_ret = Return None,
                    h_steps = [Acquire, ProxyCall, Release]\<rparr>"
    using assms by (simp add: openapiWafHandler_def performProxy_answered after_def deferred_def)
qed

theorem disabled_is_pass_through_witness:
  "RequestValidation (cfg (exampleWaf (Some (routeWith documented200)) ValidationDisable ValidationDisable))
     = ValidationDisable
   \<and> ResponseValidation (cfg (exampleWaf (Some (routeWith documented200)) ValidationDisable ValidationDisable))
     = ValidationDisable
   \<and> openapiWafHandler
        (exampleEnv (Inr (backend (backendResponse 404) None)) (Some (OtherError ''invalid'')) None)
        (exampleWaf (Some (routeWith documented200)) ValidationDisable ValidationDisable) exampleCtx
     = \<lparr>h_ctx = exampleCtx\<lparr>ctx_Request := ctx_Request exampleCtx, ctx_Response := backendResponse 404\<rparr>,
        h_ret = Return None, h_steps = [Acquire, ProxyCall, Release]\<rparr>"
proof -
  let ?client = "backend (backendResponse 404) None"
  let ?env = "exampleEnv (Inr ?client) (Some (OtherError ''invalid'')) None"
  let ?s = "exampleWaf (Some (routeWith documented200)) ValidationDisable ValidationDisable"
  have h1: "RequestValidation (cfg ?s) = ValidationDisable"
    and h2: "ResponseValidation (cfg ?s) = ValidationDisable"
    by (simp_all add: exampleWaf_def)
  have p: "proxyPool_Get ?env = Inr ?client"
    by (simp add: exampleEnv_def)
  have a: "?client (ctx_Request exampleCtx) (ctx_Response exampleCtx)
      = (ctx_Request exampleCtx, backendResponse 404, None)"
    by (simp add: backend_def)
  from disabled_is_pass_through[OF h1 h2, of ?env exampleCtx] p a h1 h2
  show ?thesis by blast
qed

text \<open>
  Claim C8, as amended. When the request validation mode is LogOnly, a route is matched,
  and request validation fails, the failure is logged and the backend call is still made,
  whatever the backend and the response validation mode; and when the backend answers,
  its response leaves the handler unchanged provided response validation does not block
  it, that is, the response validation mode is not Block or the response validates.
\<close>

theorem log_only_request_still_proxied:
  assumes "proxyPool_Get env = Inr client"
    and "RequestValidation (cfg s) = ValidationLog"
    and "route s = Some rt" and "Operation rt = Some operation"
    and "pathParams s ctx = Return params"
    and "ConvertRequest env ctx = Inr req"
    and "ValidateRequest env \<lparr>Request = Some req, PathParams = params, Route = route s\<rparr> = Some err"
  shows "take 5 (h_steps (openapiWafHandler env s ctx)) =
           [Acquire, ParserGet, ValidateRequestCall, Log ''request validation error'', ProxyCall]
       \<and> (\<forall>rq rs.
             client (ctx_Request ctx) (ctx_Response ctx) = (rq, rs, None) \<longrightarrow>
             (ResponseValidation (cfg s) = ValidationBlock \<longrightarrow>
                verdict (ValidateResponse (validator env)
                  (responseValidationInput (validator env)
                     \<lparr>Request = Some req, PathParams = params, Route = route s\<rparr>
                     (ctx\<lparr>ctx_Request := rq, ctx_Response := rs\<rparr>))) = Return None) \<longrightarrow>
             ctx_Response (h_ctx (openapiWafHandler env s ctx)) = rs
             \<and> h_ret (openapiWafHandler env s ctx) = Return None)"
proof -
  let ?rvi = "\<lparr>Request = Some req, PathParams = params, Route = route s\<rparr>"
  have st: "validateRequestStage env s client ctx =
      after [ParserGet] (deferred ParserPut (after [ValidateRequestCall]
        (after [Log ''request validation error''] (proxyStage env s client ?rvi ctx))))"
    using assms(2,5,6,7) by (simp add: validateRequestStage_def)
  have top: "openapiWafHandler env s ctx =
      after [Acquire] (deferred Release (validateRequestStage env s client ctx))"
    using assms(1,2,3) by (simp add: openapiWafHandler_def routeStage_def)
  have first: "take 5 (h_steps (openapiWafHandler env s ctx)) =
           [Acquire, ParserGet, ValidateRequestCall, Log ''request validation error'', ProxyCall]"
    unfolding top st using proxyStage_first[of env s client ?rvi ctx]
    by (cases "h_steps (proxyStage env s client ?rvi ctx)") simp_all
  have second: "ctx_Response (h_ctx (openapiWafHandler env s ctx)) = rs
             \<and> h_ret (openapiWafHandler env s ctx) = Return None"
    if answered: "client (ctx_Request ctx) (ctx_Response ctx) = (rq, rs, None)"
      and pass: "ResponseValidation (cfg s) = ValidationBlock \<longrightarrow>
                verdict (ValidateResponse (validator env)
                  (responseValidationInput (validator env) ?rvi
                     (ctx\<lparr>ctx_Request := rq, ctx_Response := rs\<rparr>))) = Return None"
    for rq rs
  proof -
    let ?ctx = "ctx\<lparr>ctx_Request := rq, ctx_Response := rs\<rparr>"
    have np: "verdict (ValidateResponse (validator env)
        (responseValidationInput (validator env) ?rvi ?ctx)) \<noteq> Panic"
      using pipeline_no_panic[of ?rvi req rt operation] assms(3,4) by simp
    note vr = validateResponseStage_passes[OF np pass]
    have ps: "h_ctx (proxyStage env s client ?rvi ctx) = ?ctx"
        "h_ret (proxyStage env s client ?rvi ctx) = Return None"
      using vr
      by (simp_all add: proxyStage_def performProxy_answered[where client = client, OF answered])
    show ?thesis
      unfolding top st using ps by simp
  qed
  from first second show ?thesis by blast
qed

theorem log_only_request_still_proxied_witness:
  "ValidateRequest
       (exampleEnv (Inr (backend (backendResponse 200) None)) (Some (OtherError ''invalid'')) None)
       \<lparr>Request = Some \<lparr>Method = ''GET''\<rparr>, PathParams = None,
        Route = route (exampleWaf (Some (routeWith documented200)) ValidationLog ValidationBlock)\<rparr>
     = Some (OtherError ''invalid'')
   \<and> take 5 (h_steps (openapiWafHandler
        (exampleEnv (Inr (backend (backendResponse 200) None)) (Some (OtherError ''invalid'')) None)
        (exampleWaf (Some (routeWith documented200)) ValidationLog ValidationBlock) exampleCtx))
     = [Acquire, ParserGet, ValidateRequestCall, Log ''request validation error'', ProxyCall]
   \<and> ctx_Response (h_ctx (openapiWafHandler
        (exampleEnv (Inr (backend (backendResponse 200) None)) (Some (OtherError ''invalid'')) None)
        (exampleWaf (Some (routeWith documented200)) ValidationLog ValidationBlock) exampleCtx))
     = backendResponse 200
   \<and> take 5 (h_steps (openapiWafHandler
        (exampleEnv (Inr (backend (backendResponse 404) None)) (Some (OtherError ''invalid'')) None)
        (exampleWaf (Some (routeWith documented200)) ValidationLog ValidationBlock) exampleCtx))
     = [Acquire, ParserGet, ValidateRequestCall, Log ''request validation error'', ProxyCall]"
proof -
  let ?client = "backend (backendResponse 200) None"
  let ?env = "exampleEnv (Inr ?client) (Some (OtherError ''invalid'')) None"
  let ?client' = "backend (backendResponse 404) None"
  let ?env' = "exampleEnv (Inr ?client') (Some (OtherError ''invalid'')) None"
  let ?s = "exampleWaf (Some (routeWith documented200)) ValidationLog ValidationBlock"
  let ?rvi = "\<lparr>Request = Some \<lparr>Method = ''GET''\<rparr>, PathParams = None, Route = route ?s\<rparr>"
  have h1: "proxyPool_Get ?env = Inr ?client" and g1: "proxyPool_Get ?env' = Inr ?client'"
    by (simp_all add: exampleEnv_def)
  have h2: "RequestValidation (cfg ?s) = ValidationLog"
    by (simp add: exampleWaf_def)
  have h3: "route ?s = Some (routeWith documented200)"
    by (simp add: exampleWaf_def)
  have h4: "Operation (routeWith documented200) = Some \<lparr>Responses = documented200\<rparr>"
    by (simp add: routeWith_def)
  have h5: "pathParams ?s exampleCtx = Return None"
    by (simp add: pathParams_def exampleWaf_def)
  have h6: "ConvertRequest ?env exampleCtx = Inr \<lparr>Method = ''GET''\<rparr>"
    and g6: "ConvertRequest ?env' exampleCtx = Inr \<lparr>Method = ''GET''\<rparr>"
    by (simp_all add: exampleEnv_def)
  have h7: "ValidateRequest ?env ?rvi = Some (OtherError ''invalid'')"
    and g7: "ValidateRequest ?env' ?rvi = Some (OtherError ''invalid'')"
    by (simp_all add: exampleEnv_def)
  have h8: "?client (ctx_Request exampleCtx) (ctx_Response exampleCtx)
      = (ctx_Request exampleCtx, backendResponse 200, None)"
    by (simp add: backend_def)
  have h9: "ResponseValidation (cfg ?s) = ValidationBlock \<longrightarrow>
      verdict (ValidateResponse (validator ?env) (responseValidationInput (validator ?env) ?rvi
        (exampleCtx\<lparr>ctx_Request := ctx_Request exampleCtx, ctx_Response := backendResponse 200\<rparr>)))
      = Return None"
    by (simp add: validator_defs handler_defs example_defs)
  note answered = log_only_request_still_proxied[where client = ?client, OF h1 h2 h3 h4 h5 h6 h7]
  note blocked = log_only_request_still_proxied[where client = ?client', OF g1 h2 h3 h4 h5 g6 g7]
  from answered h8 h9 have "ctx_Response (h_ctx (openapiWafHandler ?env ?s exampleCtx)) = backendResponse 200"
    by blast
  with answered blocked h7 show ?thesis by blast
qed

theorem log_only_request_blocked_response:
  "RequestValidation (cfg (exampleWaf (Some (routeWith documented200)) ValidationLog ValidationBlock))
     = ValidationLog
   \<and> ValidateRequest
       (exampleEnv (Inr (backend (backendResponse 404) None)) (Some (OtherError ''invalid'')) None)
       (requestInput documented200)
     = Some (OtherError ''invalid'')
   \<and> ProxyCall \<in> set (h_steps (openapiWafHandler
        (exampleEnv (Inr (backend (backendResponse 404) None)) (Some (OtherError ''invalid'')) None)
        (exampleWaf (Some (routeWith documented200)) ValidationLog ValidationBlock) exampleCtx))
   \<and> StatusCode (backendResponse 404) = 404
   \<and> StatusCode (ctx_Response (h_ctx (openapiWafHandler
        (exampleEnv (Inr (backend (backendResponse 404) None)) (Some (OtherError ''invalid'')) None)
        (exampleWaf (Some (routeWith documented200)) ValidationLog ValidationBlock) exampleCtx))) = 403"
  by (simp add: validator_defs handler_defs example_defs)

text \<open>
  Claim C9, as amended. For a request with no matched route, once a backend client is
  acquired: when either validation mode is Block, the handler responds at once with the
  configured block status code, carrying the fixed route-not-found diagnostic when the
  status header is enabled, and makes no proxy call; when neither mode is Block and either
  is LogOnly, the proxy call is made, the shadow-API check is invoked, and the context and
  the value the handler returns are those of the proxy call, whatever the check returns.
\<close>

theorem unmatched_route_policy:
  assumes "proxyPool_Get env = Inr client" and "route s = None"
  shows "(RequestValidation (cfg s) = ValidationBlock \<or> ResponseValidation (cfg s) = ValidationBlock \<longrightarrow>
            h_steps (openapiWafHandler env s ctx) = [Acquire, Release]
          \<and> StatusCode (ctx_Response (h_ctx (openapiWafHandler env s ctx))) = CustomBlockStatusCode (cfg s)
          \<and> (if AddValidationStatusHeader (cfg s)
             then (ValidationStatus, ''request: route not found'')
                    \<in> set (rs_Header (ctx_Response (h_ctx (openapiWafHandler env s ctx))))
             else ValidationStatus
                    \<notin> fst ` set (rs_Header (ctx_Response (h_ctx (openapiWafHandler env s ctx))))))
       \<and> (RequestValidation (cfg s) \<noteq> ValidationBlock \<and> ResponseValidation (cfg s) \<noteq> ValidationBlock
          \<and> (RequestValidation (cfg s) = ValidationLog \<or> ResponseValidation (cfg s) = ValidationLog) \<longrightarrow>
            ProxyCall \<in> set (h_steps (openapiWafHandler env s ctx))
          \<and> ShadowCheck \<in> set (h_steps (openapiWafHandler env s ctx))
          \<and> (\<forall>chk. h_ctx (openapiWafHandler (env\<lparr>shadowAPI_Check := chk\<rparr>) s ctx)
                      = h_ctx (performProxy env ctx client)
                  \<and> h_ret (openapiWafHandler (env\<lparr>shadowAPI_Check := chk\<rparr>) s ctx)
                      = h_ret (performProxy env ctx client)))"
  using assms performProxy_called[of env ctx client]
  by (auto simp: openapiWafHandler_def routeStage_def performProxy_check_irrelevant Let_def
      split: option.split)

theorem unmatched_route_policy_witness:
  "route (exampleWaf None ValidationBlock ValidationDisable) = None
   \<and> h_steps (openapiWafHandler (exampleEnv (Inr (backend (backendResponse 200) None)) None None)
        (exampleWaf None ValidationBlock ValidationDisable) exampleCtx) = [Acquire, Release]
   \<and> StatusCode (ctx_Response (h_ctx (openapiWafHandler
        (exampleEnv (Inr (backend (backendResponse 200) None)) None None)
        (exampleWaf None ValidationBlock ValidationDisable) exampleCtx))) = 403
   \<and> (''APIFW-Validation-Status'', ''request: route not found'')
        \<in> set (rs_Header (ctx_Response (h_ctx (openapiWafHandler
              (exampleEnv (Inr (backend (backendResponse 200) None)) None None)
              (exampleWaf None ValidationBlock ValidationDisable) exampleCtx))))
   \<and> route (exampleWaf None ValidationDisable ValidationLog) = None
   \<and> ProxyCall \<in> set (h_steps (openapiWafHandler
        (exampleEnv (Inr (backend (backendResponse 200) None)) None None)
        (exampleWaf None ValidationDisable ValidationLog) exampleCtx))
   \<and> ShadowCheck \<in> set (h_steps (openapiWafHandler
        (exampleEnv (Inr (backend (backendResponse 200) None)) None None)
        (exampleWaf None ValidationDisable ValidationLog) exampleCtx))
   \<and> ctx_Response (h_ctx (openapiWafHandler
        ((exampleEnv (Inr (backend (backendResponse 200) None)) None None)
           \<lparr>shadowAPI_Check := (\<lambda>c. None)\<rparr>)
        (exampleWaf None ValidationDisable ValidationLog) exampleCtx))
     = backendResponse 200"
proof -
  let ?client = "backend (backendResponse 200) None"
  let ?env = "exampleEnv (Inr ?client) None None"
  let ?blocking = "exampleWaf None ValidationBlock ValidationDisable"
  let ?logging = "exampleWaf None ValidationDisable ValidationLog"
  have h1: "proxyPool_Get ?env = Inr ?client"
    by (simp add: exampleEnv_def)
  have h2: "route ?blocking = None" and h3: "route ?logging = None"
    by (simp_all add: exampleWaf_def)
  have b: "CustomBlockStatusCode (cfg ?blocking) = 403" "AddValidationStatusHeader (cfg ?blocking)"
    by (simp_all add: exampleWaf_def)
  have p: "ctx_Response (h_ctx (performProxy ?env exampleCtx ?client)) = backendResponse 200"
    by (simp add: performProxy_def backend_def)
  have m: "RequestValidation (cfg ?blocking) = ValidationBlock"
      "RequestValidation (cfg ?logging) = ValidationDisable"
      "ResponseValidation (cfg ?logging) = ValidationLog"
    by (simp_all add: exampleWaf_def)
  from unmatched_route_policy[OF h1 h2, of exampleCtx] unmatched_route_policy[OF h1 h3, of exampleCtx]
    h2 h3 b p m
  show ?thesis by (simp add: ValidationStatus_def)
qed

theorem block_precedes_log_only:
  "route (exampleWaf None ValidationBlock ValidationLog) = None
   \<and> RequestValidation (cfg (exampleWaf None ValidationBlock ValidationLog)) = ValidationBlock
   \<and> ResponseValidation (cfg (exampleWaf None ValidationBlock ValidationLog)) = ValidationLog
   \<and> ProxyCall \<notin> set (h_steps (openapiWafHandler
        (exampleEnv (Inr (backend (backendResponse 200) None)) None None)
        (exampleWaf None ValidationBlock ValidationLog) exampleCtx))
   \<and> ShadowCheck \<notin> set (h_steps (openapiWafHandler
        (exampleEnv (Inr (backend (backendResponse 200) None)) None None)
        (exampleWaf None ValidationBlock ValidationLog) exampleCtx))
   \<and> StatusCode (ctx_Response (h_ctx (openapiWafHandler
        (exampleEnv (Inr (backend (backendResponse 200) None)) None None)
        (exampleWaf None ValidationBlock ValidationLog) exampleCtx))) = 403"
  by (simp add: handler_defs example_defs)

end
